theory Spec2Isabelle
  imports Main
begin

section \<open>Data model of the gateway\<close>

text \<open>
  The gateway is documented through Rust listings: the runtime traits and the message
  envelope (runtime abstraction page), the lifecycle manager with its connection pool,
  idle sweep, shutdown and registry update (lifecycle management page), and the HTTP
  handlers (API endpoints page). The definitions below follow those listings.

  Conventions. A Rust \<open>HashMap<String, V>\<close> is a map \<open>string \<rightharpoonup> V\<close>; a \<open>Vec\<close> is a list;
  \<open>Option\<close> is \<open>option\<close>; \<open>Result<T, E>\<close> is \<open>E + T\<close> with \<open>Inl\<close> the error. \<open>Instant\<close>,
  \<open>DateTime\<close> and \<open>Duration\<close> are natural numbers of clock ticks. Counters are \<open>u64\<close>
  in the source and are only ever incremented by one; they are natural numbers here.
  Several structs of the source share field names (\<open>id\<close>, \<open>status\<close>, \<open>request_count\<close> ...),
  so fields carry a prefix naming their struct. An opaque \<open>serde_json::Value\<close> is
  kept as its text.
\<close>

type_synonym json = string
type_synonym instant = nat
type_synonym duration = nat

subsection \<open>Messages\<close>

record McpMessage =
  msg_jsonrpc :: string
  msg_id :: "json option"
  msg_method :: "string option"
  msg_params :: "json option"
  msg_result :: "json option"
  msg_error :: "json option"

definition is_request :: "McpMessage \<Rightarrow> bool" where
  "is_request m \<longleftrightarrow> msg_method m \<noteq> None \<and> msg_id m \<noteq> None"

definition is_response :: "McpMessage \<Rightarrow> bool" where
  "is_response m \<longleftrightarrow> msg_result m \<noteq> None \<or> msg_error m \<noteq> None"

definition is_notification :: "McpMessage \<Rightarrow> bool" where
  "is_notification m \<longleftrightarrow> msg_method m \<noteq> None \<and> msg_id m = None"

text \<open>How many of the three shape predicates a message satisfies.\<close>

definition shape_count :: "McpMessage \<Rightarrow> nat" where
  "shape_count m =
     (if is_request m then 1 else 0) + (if is_response m then 1 else 0)
       + (if is_notification m then 1 else 0)"

text \<open>The envelope \<open>{"jsonrpc": "2.0"}\<close>: every optional field absent.\<close>

definition bare_envelope :: McpMessage where
  "bare_envelope =
     \<lparr>msg_jsonrpc = ''2.0'', msg_id = None, msg_method = None, msg_params = None,
      msg_result = None, msg_error = None\<rparr>"

text \<open>A request that also carries a result.\<close>

definition request_with_result :: McpMessage where
  "request_with_result =
     \<lparr>msg_jsonrpc = ''2.0'', msg_id = Some ''1'', msg_method = Some ''tools/list'',
      msg_params = None, msg_result = Some ''{}'', msg_error = None\<rparr>"

subsection \<open>Errors\<close>

datatype GatewayError =
    ServerNotFound string
  | RuntimeError string
  | ConfigError string
  | UnsupportedRuntime string

datatype AppError =
    NotFound string
  | BadRequest string
  | Unauthorized string
  | Internal string
  | BadGateway string

text \<open>\<open>impl From<GatewayError> for AppError\<close>; \<open>e.to_string()\<close> follows the
  \<open>#[error("...")]\<close> attributes of \<open>GatewayError\<close>, and the variant the listing of the
  enum does not show (\<open>UnsupportedRuntime\<close>) falls to the catch-all arm with its payload.\<close>

definition not_found_message :: "string \<Rightarrow> string" where
  "not_found_message sid = ''Server '' @ [CHR 0x27] @ sid @ [CHR 0x27] @ '' not found''"

fun app_error_from :: "GatewayError \<Rightarrow> AppError" where
  "app_error_from (ServerNotFound sid) = NotFound (not_found_message sid)"
| "app_error_from (RuntimeError e) = BadGateway e"
| "app_error_from (ConfigError e) = Internal e"
| "app_error_from (UnsupportedRuntime e) = Internal e"

subsection \<open>Server definitions and the registry\<close>

datatype RuntimeConfig =
    LocalProcess string "string list" "string option"
  | RemoteSse string "string \<rightharpoonup> string"
  | Docker string "string list"
  | K8sJob string string
  | K8sService string string

text \<open>The tag of a variant under \<open>#[serde(tag = "type", rename_all = "kebab-case")]\<close>.\<close>

fun type_name :: "RuntimeConfig \<Rightarrow> string" where
  "type_name (LocalProcess _ _ _) = ''local-process''"
| "type_name (RemoteSse _ _) = ''remote-sse''"
| "type_name (Docker _ _) = ''docker''"
| "type_name (K8sJob _ _) = ''k8s-job''"
| "type_name (K8sService _ _) = ''k8s-service''"

record ServerDefinition =
  def_id :: string
  def_display_name :: string
  def_description :: "string option"
  def_runtime :: RuntimeConfig
  def_env :: "string \<rightharpoonup> string"
  def_tags :: "string list"

text \<open>\<open>struct ServerRegistry { servers: HashMap<String, ServerDefinition> }\<close>.\<close>

record ServerRegistry =
  servers :: "string \<rightharpoonup> ServerDefinition"

definition registry_get :: "ServerRegistry \<Rightarrow> string \<Rightarrow> ServerDefinition option" where
  "registry_get reg sid = servers reg sid"

definition registry_contains :: "ServerRegistry \<Rightarrow> string \<Rightarrow> bool" where
  "registry_contains reg sid \<longleftrightarrow> servers reg sid \<noteq> None"

definition registry_ids :: "ServerRegistry \<Rightarrow> string set" where
  "registry_ids reg = dom (servers reg)"

subsection \<open>Manager state\<close>

datatype ServerStatus = Stopped | Starting | Running | Unhealthy | ShuttingDown

record ServerState =
  state_status :: ServerStatus
  state_started_at :: "instant option"
  state_last_activity :: instant
  state_request_count :: nat
  state_error_count :: nat

record ManagerConfig =
  idle_timeout :: duration
  health_check_interval :: duration
  max_connections_per_server :: nat
  request_timeout :: duration

section \<open>Runtime layer\<close>

text \<open>
  A child process, as far as \<open>close\<close> can tell: the signals it has been sent, oldest
  first, and what the operating system answers to a kill request (\<open>None\<close>: success).
\<close>

datatype signal = SIGTERM | SIGKILL

record Child =
  child_signals :: "signal list"
  child_kill_error :: "string option"

text \<open>
  \<open>tokio::process::Child::kill\<close>: forces the child to exit, which on Unix is a
  \<open>SIGKILL\<close>. An operating system error comes back through \<open>?\<close> as a runtime error.
\<close>

definition child_kill :: "Child \<Rightarrow> GatewayError + Child" where
  "child_kill ch =
     (case child_kill_error ch of
        Some e \<Rightarrow> Inl (RuntimeError e)
      | None \<Rightarrow> Inr (ch\<lparr>child_signals := child_signals ch @ [SIGKILL]\<rparr>))"

text \<open>
  The two implementations of \<open>BackendConnection\<close>. The pipes of a local process
  connection belong to \<open>send\<close> and \<open>recv\<close> and are not carried.
\<close>

datatype BackendConnection =
    LocalProcessConnection Child
  | RemoteSseConnection string "string \<rightharpoonup> string"

text \<open>\<open>BackendConnection::close\<close>: \<open>self.child.kill().await?; Ok(())\<close> for a local
  process, \<open>Ok(())\<close> for a remote endpoint.\<close>

fun close :: "BackendConnection \<Rightarrow> GatewayError + BackendConnection" where
  "close (LocalProcessConnection ch) =
     (case child_kill ch of
        Inl e \<Rightarrow> Inl e
      | Inr ch' \<Rightarrow> Inr (LocalProcessConnection ch'))"
| "close (RemoteSseConnection url headers) = Inr (RemoteSseConnection url headers)"

text \<open>The signals a connection's child has received (none for a remote endpoint).\<close>

fun signals_of :: "BackendConnection \<Rightarrow> signal list" where
  "signals_of (LocalProcessConnection ch) = child_signals ch"
| "signals_of (RemoteSseConnection _ _) = []"

section \<open>Connection pool\<close>

text \<open>
  \<open>pool_runtime\<close> stands for the \<open>Arc<dyn Runtime>\<close> of the pool: the runtime
  configuration it was created from.
\<close>

record ConnectionPool =
  pool_connections :: "BackendConnection list"
  pool_available :: "nat list"
  pool_max_size :: nat
  pool_runtime :: RuntimeConfig

text \<open>A Rust panic is an outcome of its own, next to the typed errors.\<close>

datatype failure = Err GatewayError | Panic string

text \<open>
  \<open>ConnectionPool::get\<close>. The answer of \<open>self.runtime.connect().await\<close> comes from
  outside and is the argument \<open>connect_result\<close>, read only on the branch that calls
  \<open>connect\<close>. The handle returned is the index of the connection. Indexing
  \<open>self.connections[idx]\<close> panics out of range; the last branch is the \<open>todo!\<close> of the
  listing.
\<close>

definition pool_get ::
  "ConnectionPool \<Rightarrow> GatewayError + BackendConnection \<Rightarrow> (failure + nat) \<times> ConnectionPool" where
  "pool_get p connect_result =
     (case pool_available p of
        idx # rest \<Rightarrow>
          (if idx < length (pool_connections p)
           then (Inr idx, p\<lparr>pool_available := rest\<rparr>)
           else (Inl (Panic ''index out of bounds''), p\<lparr>pool_available := rest\<rparr>))
      | [] \<Rightarrow>
          (if length (pool_connections p) < pool_max_size p then
             (case connect_result of
                Inl e \<Rightarrow> (Inl (Err e), p)
              | Inr conn \<Rightarrow>
                  (Inr (length (pool_connections p)),
                   p\<lparr>pool_connections := pool_connections p @ [conn]\<rparr>))
           else (Inl (Panic ''not yet implemented: Wait for available connection''), p)))"

definition pool_release :: "ConnectionPool \<Rightarrow> nat \<Rightarrow> ConnectionPool" where
  "pool_release p idx = p\<lparr>pool_available := pool_available p @ [idx]\<rparr>"

text \<open>A sequence of pool operations, each \<open>get\<close> with the answer \<open>connect\<close> would give.\<close>

datatype pool_op = Get "GatewayError + BackendConnection" | Release nat

fun pool_step :: "ConnectionPool \<Rightarrow> pool_op \<Rightarrow> ConnectionPool" where
  "pool_step p (Get connect_result) = snd (pool_get p connect_result)"
| "pool_step p (Release idx) = pool_release p idx"

definition pool_run :: "ConnectionPool \<Rightarrow> pool_op list \<Rightarrow> ConnectionPool" where
  "pool_run p ops = foldl pool_step p ops"

text \<open>
  Modelled from the spec: \<open>ConnectionPool::close_all\<close>, which \<open>stop_server\<close> calls and
  whose body is not among the listings. Per the spec it closes every connection of the
  pool and does not return before all are closed; it answers with a \<open>Result\<close>, so the
  first \<open>close\<close> that fails ends it with that error, as \<open>?\<close> does everywhere else.
\<close>

fun close_each :: "BackendConnection list \<Rightarrow> GatewayError + BackendConnection list" where
  "close_each [] = Inr []"
| "close_each (c # cs) =
     (case close c of
        Inl e \<Rightarrow> Inl e
      | Inr c' \<Rightarrow> (case close_each cs of Inl e \<Rightarrow> Inl e | Inr cs' \<Rightarrow> Inr (c' # cs')))"

definition close_all :: "ConnectionPool \<Rightarrow> GatewayError + BackendConnection list" where
  "close_all p = close_each (pool_connections p)"

section \<open>Server manager\<close>

record ServerManager =
  mgr_registry :: ServerRegistry
  mgr_connections :: "string \<rightharpoonup> ConnectionPool"
  mgr_status :: "string \<rightharpoonup> ServerState"
  mgr_config :: ManagerConfig

text \<open>The number of connections the manager holds for a server.\<close>

definition pool_size :: "ServerManager \<Rightarrow> string \<Rightarrow> nat" where
  "pool_size mgr sid =
     (case mgr_connections mgr sid of None \<Rightarrow> 0 | Some p \<Rightarrow> length (pool_connections p))"

definition status_of :: "ServerManager \<Rightarrow> string \<Rightarrow> ServerStatus option" where
  "status_of mgr sid = map_option state_status (mgr_status mgr sid)"

subsection \<open>Statistics\<close>

text \<open>
  \<open>ServerStats\<close> as \<open>get_stats\<close> builds it. The handlers also read \<open>s.last_activity\<close>
  from it, a field the struct listing leaves out; it is carried here from the state,
  as the handlers need it.
\<close>

record ServerStats =
  stats_status :: ServerStatus
  stats_started_at :: "instant option"
  stats_last_activity :: instant
  stats_request_count :: nat
  stats_error_count :: nat
  stats_uptime :: "duration option"

record ManagerStats =
  total_servers :: nat
  active_servers :: nat
  stats_servers :: "string \<rightharpoonup> ServerStats"

text \<open>\<open>ServerManager::get_stats\<close>, read at clock value \<open>now\<close> (\<open>t.elapsed()\<close> is
  \<open>now - t\<close>). The loop inserts one entry per state, so the resulting map is the state
  map with each state converted.\<close>

definition server_stats_of :: "instant \<Rightarrow> ServerState \<Rightarrow> ServerStats" where
  "server_stats_of now st =
     \<lparr>stats_status = state_status st,
      stats_started_at = state_started_at st,
      stats_last_activity = state_last_activity st,
      stats_request_count = state_request_count st,
      stats_error_count = state_error_count st,
      stats_uptime = map_option (\<lambda>t. now - t) (state_started_at st)\<rparr>"

definition get_stats :: "ServerManager \<Rightarrow> instant \<Rightarrow> ManagerStats" where
  "get_stats mgr now =
     \<lparr>total_servers = card (dom (mgr_status mgr)),
      active_servers =
        card {sid. \<exists>st. mgr_status mgr sid = Some st \<and> state_status st = Running},
      stats_servers = (\<lambda>sid. map_option (server_stats_of now) (mgr_status mgr sid))\<rparr>"

text \<open>
  Modelled from the spec: \<open>ServerManager::get_status\<close>, called by \<open>get_connection\<close> and by
  the handlers but not listed. Per the spec an id outside the registry is not found, and
  a registered server whose state has not been created yet is \<open>Stopped\<close>.
\<close>

definition get_status :: "ServerManager \<Rightarrow> string \<Rightarrow> GatewayError + ServerStatus" where
  "get_status mgr sid =
     (if registry_contains (mgr_registry mgr) sid
      then Inr (case mgr_status mgr sid of None \<Rightarrow> Stopped | Some st \<Rightarrow> state_status st)
      else Inl (ServerNotFound sid))"

text \<open>\<open>ServerManager::touch\<close> at clock value \<open>now\<close>.\<close>

definition touch :: "ServerManager \<Rightarrow> string \<Rightarrow> instant \<Rightarrow> ServerManager" where
  "touch mgr sid now =
     (case mgr_status mgr sid of
        None \<Rightarrow> mgr
      | Some st \<Rightarrow>
          mgr\<lparr>mgr_status := (mgr_status mgr)(sid \<mapsto>
            st\<lparr>state_last_activity := now, state_request_count := state_request_count st + 1\<rparr>)\<rparr>)"

text \<open>
  \<open>ServerManager::get_connection\<close>. \<open>start_server\<close> and \<open>wait_for_ready\<close> are not listed
  and are parameters: any state transformer with a result.
\<close>

type_synonym manager_call = "ServerManager \<Rightarrow> string \<Rightarrow> (GatewayError + unit) \<times> ServerManager"

definition get_connection ::
  "manager_call \<Rightarrow> manager_call \<Rightarrow> GatewayError + BackendConnection \<Rightarrow> instant \<Rightarrow>
   ServerManager \<Rightarrow> string \<Rightarrow> (failure + nat) \<times> ServerManager" where
  "get_connection start_server wait_for_ready connect_result now mgr sid =
     (case get_status mgr sid of
        Inl e \<Rightarrow> (Inl (Err e), mgr)
      | Inr status \<Rightarrow>
          (case (if status = Stopped then start_server mgr sid else (Inr (), mgr)) of
             (Inl e, m1) \<Rightarrow> (Inl (Err e), m1)
           | (Inr _, m1) \<Rightarrow>
               (case wait_for_ready m1 sid of
                  (Inl e, m2) \<Rightarrow> (Inl (Err e), m2)
                | (Inr _, m2) \<Rightarrow>
                    (case mgr_connections m2 sid of
                       None \<Rightarrow> (Inl (Err (ServerNotFound sid)), m2)
                     | Some pool \<Rightarrow>
                         (case pool_get pool connect_result of
                            (Inl f, pool') \<Rightarrow>
                              (Inl f, m2\<lparr>mgr_connections := (mgr_connections m2)(sid \<mapsto> pool')\<rparr>)
                          | (Inr idx, pool') \<Rightarrow>
                              (Inr idx,
                               touch (m2\<lparr>mgr_connections := (mgr_connections m2)(sid \<mapsto> pool')\<rparr>)
                                 sid now))))))"

subsection \<open>Shutdown\<close>

text \<open>\<open>ServerManager::stop_server\<close>, one definition per block of the listing.\<close>

definition mark_shutting_down :: "ServerManager \<Rightarrow> string \<Rightarrow> ServerManager" where
  "mark_shutting_down mgr sid =
     (case mgr_status mgr sid of
        None \<Rightarrow> mgr
      | Some st \<Rightarrow> mgr\<lparr>mgr_status := (mgr_status mgr)(sid \<mapsto> st\<lparr>state_status := ShuttingDown\<rparr>)\<rparr>)"

definition close_connections :: "ServerManager \<Rightarrow> string \<Rightarrow> (GatewayError + unit) \<times> ServerManager" where
  "close_connections mgr sid =
     (case mgr_connections mgr sid of
        None \<Rightarrow> (Inr (), mgr)
      | Some pool \<Rightarrow>
          (case close_all pool of
             Inl e \<Rightarrow> (Inl e, mgr\<lparr>mgr_connections := (mgr_connections mgr)(sid := None)\<rparr>)
           | Inr _ \<Rightarrow> (Inr (), mgr\<lparr>mgr_connections := (mgr_connections mgr)(sid := None)\<rparr>)))"

definition mark_stopped :: "ServerManager \<Rightarrow> string \<Rightarrow> ServerManager" where
  "mark_stopped mgr sid =
     (case mgr_status mgr sid of
        None \<Rightarrow> mgr
      | Some st \<Rightarrow>
          mgr\<lparr>mgr_status := (mgr_status mgr)(sid \<mapsto>
            st\<lparr>state_status := Stopped, state_started_at := None\<rparr>)\<rparr>)"

definition stop_server :: manager_call where
  "stop_server mgr sid =
     (case close_connections (mark_shutting_down mgr sid) sid of
        (Inl e, m) \<Rightarrow> (Inl e, m)
      | (Inr _, m) \<Rightarrow> (Inr (), mark_stopped m sid))"

text \<open>Whether closing the pool of a server, if it has one, goes through without error.\<close>

definition closes_cleanly :: "ServerManager \<Rightarrow> string \<Rightarrow> bool" where
  "closes_cleanly mgr sid =
     (case mgr_connections mgr sid of
        None \<Rightarrow> True
      | Some pool \<Rightarrow> (case close_all pool of Inl _ \<Rightarrow> False | Inr _ \<Rightarrow> True))"

text \<open>The state \<open>stop_server\<close> leaves behind when it runs to its end.\<close>

definition stopped_state :: "ServerState \<Rightarrow> ServerState" where
  "stopped_state st = st\<lparr>state_status := Stopped, state_started_at := None\<rparr>"

text \<open>The invariant of the claim about stopped servers: a server whose state says
  \<open>Stopped\<close> has no pool in the manager.\<close>

definition stopped_without_pool :: "ServerManager \<Rightarrow> bool" where
  "stopped_without_pool mgr \<longleftrightarrow>
     (\<forall>sid st. mgr_status mgr sid = Some st \<and> state_status st = Stopped
        \<longrightarrow> mgr_connections mgr sid = None)"

subsection \<open>Idle sweep\<close>

text \<open>
  \<open>check_idle_servers\<close> at clock value \<open>now\<close>. The loop visits every entry of the state
  map and spawns one stop task for each entry that passes the two tests; \<open>idle_stop_spawned\<close>
  is the test for one id, \<open>check_idle_servers\<close> the set of ids a task is spawned for.
  \<open>Instant - Instant\<close> saturates at zero, as subtraction of naturals does.
\<close>

definition idle_stop_spawned :: "ServerManager \<Rightarrow> instant \<Rightarrow> string \<Rightarrow> bool" where
  "idle_stop_spawned mgr now sid =
     (case mgr_status mgr sid of
        None \<Rightarrow> False
      | Some st \<Rightarrow>
          state_status st = Running \<and> now - state_last_activity st > idle_timeout (mgr_config mgr))"

definition check_idle_servers :: "ServerManager \<Rightarrow> instant \<Rightarrow> string set" where
  "check_idle_servers mgr now = {sid. idle_stop_spawned mgr now sid}"

text \<open>The spawned task: \<open>stop_server\<close>, its error logged and dropped.\<close>

definition idle_stop_task :: "ServerManager \<Rightarrow> string \<Rightarrow> ServerManager" where
  "idle_stop_task mgr sid = snd (stop_server mgr sid)"

subsection \<open>Registry update\<close>

text \<open>
  \<open>ServerManager::update_registry\<close>. The ids to stop are collected from
  \<open>old_ids.difference(&new_ids)\<close>, a hash set; \<open>removed\<close> is that collection in the order the
  set yields it, and \<open>removed_ids\<close> says that it is such a collection.
\<close>

definition removed_ids :: "ServerRegistry \<Rightarrow> ServerRegistry \<Rightarrow> string list \<Rightarrow> bool" where
  "removed_ids old new removed \<longleftrightarrow>
     distinct removed \<and> set removed = registry_ids old - registry_ids new"

text \<open>The loop over \<open>removed\<close>: each id is stopped, a failure is logged and dropped.\<close>

fun stop_each :: "ServerManager \<Rightarrow> string list \<Rightarrow> ServerManager" where
  "stop_each mgr [] = mgr"
| "stop_each mgr (sid # rest) = stop_each (snd (stop_server mgr sid)) rest"

definition update_registry :: "ServerManager \<Rightarrow> ServerRegistry \<Rightarrow> string list \<Rightarrow> ServerManager" where
  "update_registry mgr new_registry removed =
     stop_each (mgr\<lparr>mgr_registry := new_registry\<rparr>) removed"

section \<open>Catalog loader\<close>

text \<open>
  Modelled from the spec: what the parser hands to validation. The documentation shows
  catalogs in YAML and no parsing code; a parsed catalog is a list of entries in which
  every field the validation rules speak about may be absent. A runtime block carries its
  \<open>type\<close> tag as written and the fields of the documented variants.
\<close>

record RawRuntime =
  rt_type :: string
  rt_command :: string
  rt_args :: "string list"
  rt_working_dir :: "string option"
  rt_url :: string
  rt_headers :: "string \<rightharpoonup> string"
  rt_image :: string
  rt_volumes :: "string list"
  rt_namespace :: string
  rt_service :: string

record RawServer =
  raw_id :: "string option"
  raw_display_name :: "string option"
  raw_description :: "string option"
  raw_runtime :: "RawRuntime option"
  raw_env :: "string \<rightharpoonup> string"
  raw_tags :: "string list"

text \<open>
  Modelled from the spec: the failures of \<open>load\<close>, a parse error or a validation error;
  the payloads are those of the messages in the table of validation rules (an index for
  a missing id, the id otherwise, and the unknown type tag).
\<close>

datatype ValidationIssue =
    MissingId nat
  | DuplicateId string
  | MissingRuntime string
  | UnknownRuntimeType string string

datatype LoadError = ParseError string | ValidationError ValidationIssue

text \<open>
  Modelled from the spec: the recognized runtime variants, by the tags of the variants of
  \<open>RuntimeConfig\<close>, and the variant a runtime block with a recognized tag denotes.
\<close>

definition recognized_types :: "string list" where
  "recognized_types = [''local-process'', ''remote-sse'', ''docker'', ''k8s-job'', ''k8s-service'']"

definition runtime_config_of :: "RawRuntime \<Rightarrow> RuntimeConfig option" where
  "runtime_config_of r =
     (if rt_type r = ''local-process''
        then Some (LocalProcess (rt_command r) (rt_args r) (rt_working_dir r))
      else if rt_type r = ''remote-sse'' then Some (RemoteSse (rt_url r) (rt_headers r))
      else if rt_type r = ''docker'' then Some (Docker (rt_image r) (rt_volumes r))
      else if rt_type r = ''k8s-job'' then Some (K8sJob (rt_namespace r) (rt_image r))
      else if rt_type r = ''k8s-service'' then Some (K8sService (rt_namespace r) (rt_service r))
      else None)"

text \<open>
  Modelled from the spec: the four validation rules that follow parsing, each as a search
  for the first entry that breaks it. An id is present when it is given and not empty;
  \<open>entry_id\<close> reads the id of an entry (empty when absent).
\<close>

definition has_id :: "RawServer \<Rightarrow> bool" where
  "has_id e = (case raw_id e of None \<Rightarrow> False | Some i \<Rightarrow> i \<noteq> [])"

definition entry_id :: "RawServer \<Rightarrow> string" where
  "entry_id e = (case raw_id e of None \<Rightarrow> [] | Some i \<Rightarrow> i)"

fun find_missing_id :: "nat \<Rightarrow> RawServer list \<Rightarrow> nat option" where
  "find_missing_id n [] = None"
| "find_missing_id n (e # es) = (if has_id e then find_missing_id (Suc n) es else Some n)"

fun find_duplicate_id :: "string list \<Rightarrow> RawServer list \<Rightarrow> string option" where
  "find_duplicate_id seen [] = None"
| "find_duplicate_id seen (e # es) =
     (if entry_id e \<in> set seen then Some (entry_id e)
      else find_duplicate_id (entry_id e # seen) es)"

fun find_missing_runtime :: "RawServer list \<Rightarrow> string option" where
  "find_missing_runtime [] = None"
| "find_missing_runtime (e # es) =
     (case raw_runtime e of None \<Rightarrow> Some (entry_id e) | Some _ \<Rightarrow> find_missing_runtime es)"

fun find_unknown_type :: "RawServer list \<Rightarrow> (string \<times> string) option" where
  "find_unknown_type [] = None"
| "find_unknown_type (e # es) =
     (case raw_runtime e of
        None \<Rightarrow> find_unknown_type es
      | Some r \<Rightarrow>
          (if rt_type r \<in> set recognized_types then find_unknown_type es
           else Some (entry_id e, rt_type r)))"

text \<open>
  Modelled from the spec: validation applies the rules in the order (b) ids present,
  (c) ids unique, (d) runtime present, (e) type recognized, and reports the first rule
  that fails.
\<close>

definition validate :: "RawServer list \<Rightarrow> ValidationIssue option" where
  "validate es =
     (case find_missing_id 0 es of
        Some n \<Rightarrow> Some (MissingId n)
      | None \<Rightarrow>
          (case find_duplicate_id [] es of
             Some i \<Rightarrow> Some (DuplicateId i)
           | None \<Rightarrow>
               (case find_missing_runtime es of
                  Some i \<Rightarrow> Some (MissingRuntime i)
                | None \<Rightarrow>
                    (case find_unknown_type es of
                       Some (i, t) \<Rightarrow> Some (UnknownRuntimeType i t)
                     | None \<Rightarrow> None))))"

text \<open>
  Modelled from the spec: the server definition of a validated entry; \<open>display_name\<close>
  defaults to the id, as the catalog page says.
\<close>

definition definition_of :: "RawServer \<Rightarrow> ServerDefinition option" where
  "definition_of e =
     (case raw_runtime e of
        None \<Rightarrow> None
      | Some r \<Rightarrow>
          (case runtime_config_of r of
             None \<Rightarrow> None
           | Some rc \<Rightarrow>
               Some \<lparr>def_id = entry_id e,
                     def_display_name =
                       (case raw_display_name e of None \<Rightarrow> entry_id e | Some n \<Rightarrow> n),
                     def_description = raw_description e,
                     def_runtime = rc,
                     def_env = raw_env e,
                     def_tags = raw_tags e\<rparr>))"

text \<open>
  Modelled from the spec: \<open>ServerRegistry::new\<close>, which the listings call and do not show. It
  fills the \<open>HashMap\<close> of the registry, inserting each definition under its id in catalog
  order (a later insertion under the same key replaces the earlier one).
\<close>

fun insert_all ::
  "ServerDefinition list \<Rightarrow> (string \<rightharpoonup> ServerDefinition) \<Rightarrow> (string \<rightharpoonup> ServerDefinition)" where
  "insert_all [] m = m"
| "insert_all (d # ds) m = insert_all ds (m(def_id d \<mapsto> d))"

definition ServerRegistry_new :: "ServerDefinition list \<Rightarrow> ServerRegistry" where
  "ServerRegistry_new defs = \<lparr>servers = insert_all defs Map.empty\<rparr>"

text \<open>
  Modelled from the spec: \<open>ServerRegistry::all\<close>, of which only the signature is documented: an
  iterator over the definitions of the registry. The registry stores them in a \<open>HashMap\<close>,
  whose iteration order is arbitrary, so what \<open>all\<close> yields is the set of stored
  definitions; a caller sees some enumeration of that set.
\<close>

definition registry_all :: "ServerRegistry \<Rightarrow> ServerDefinition set" where
  "registry_all reg = ran (servers reg)"

text \<open>
  Modelled from the spec: \<open>load\<close> (\<open>load_catalog\<close>): (a) the text must parse, then the
  entries are validated, and only a catalog that passes every rule becomes a registry.
  The parser is the parameter \<open>parse_yaml\<close>.
\<close>

definition load_catalog ::
  "(string \<Rightarrow> string + RawServer list) \<Rightarrow> string \<Rightarrow> LoadError + ServerRegistry" where
  "load_catalog parse_yaml text =
     (case parse_yaml text of
        Inl e \<Rightarrow> Inl (ParseError e)
      | Inr es \<Rightarrow>
          (case validate es of
             Some issue \<Rightarrow> Inl (ValidationError issue)
           | None \<Rightarrow> Inr (ServerRegistry_new (List.map_filter definition_of es))))"

text \<open>
  \<open>CatalogWatcher::reload\<close> as listed: \<open>load_catalog(...)?\<close> returns early on an error, and
  only a loaded registry is written to the shared pointer. The second component of the
  answer is the registry in effect afterwards.
\<close>

definition watcher_reload ::
  "(string \<Rightarrow> string + RawServer list) \<Rightarrow> string \<Rightarrow> ServerRegistry \<Rightarrow>
   (LoadError + unit) \<times> ServerRegistry" where
  "watcher_reload parse_yaml text registry =
     (case load_catalog parse_yaml text of
        Inl e \<Rightarrow> (Inl e, registry)
      | Inr new_registry \<Rightarrow> (Inr (), new_registry))"

text \<open>
  The validation rules in the words of the spec, each over the whole catalog, and the
  first of them a parse outcome breaks.
\<close>

datatype catalog_rule = Syntax | IdPresent | IdUnique | RuntimePresent | TypeRecognized

definition rule_id_present :: "RawServer list \<Rightarrow> bool" where
  "rule_id_present es \<longleftrightarrow> (\<forall>e \<in> set es. \<exists>i. raw_id e = Some i \<and> i \<noteq> [])"

definition rule_id_unique :: "RawServer list \<Rightarrow> bool" where
  "rule_id_unique es \<longleftrightarrow> distinct (map entry_id es)"

definition rule_runtime_present :: "RawServer list \<Rightarrow> bool" where
  "rule_runtime_present es \<longleftrightarrow> (\<forall>e \<in> set es. raw_runtime e \<noteq> None)"

definition rule_type_recognized :: "RawServer list \<Rightarrow> bool" where
  "rule_type_recognized es \<longleftrightarrow>
     (\<forall>e \<in> set es. \<forall>r. raw_runtime e = Some r \<longrightarrow> rt_type r \<in> set recognized_types)"

definition first_failed_rule :: "string + RawServer list \<Rightarrow> catalog_rule option" where
  "first_failed_rule parsed =
     (case parsed of
        Inl _ \<Rightarrow> Some Syntax
      | Inr es \<Rightarrow>
          (if \<not> rule_id_present es then Some IdPresent
           else if \<not> rule_id_unique es then Some IdUnique
           else if \<not> rule_runtime_present es then Some RuntimePresent
           else if \<not> rule_type_recognized es then Some TypeRecognized
           else None))"

fun rule_of_issue :: "ValidationIssue \<Rightarrow> catalog_rule" where
  "rule_of_issue (MissingId _) = IdPresent"
| "rule_of_issue (DuplicateId _) = IdUnique"
| "rule_of_issue (MissingRuntime _) = RuntimePresent"
| "rule_of_issue (UnknownRuntimeType _ _) = TypeRecognized"

fun rule_of_error :: "LoadError \<Rightarrow> catalog_rule" where
  "rule_of_error (ParseError _) = Syntax"
| "rule_of_error (ValidationError issue) = rule_of_issue issue"

section \<open>HTTP handlers\<close>

record ListParams =
  tag :: "string option"

record ServerInfo =
  info_id :: string
  info_display_name :: string
  info_description :: "string option"
  info_status :: ServerStatus
  info_tags :: "string list"
  info_runtime_type :: string
  info_started_at :: "instant option"
  info_last_activity :: "instant option"
  info_request_count :: nat

record 'ri ServerDetail =
  detail_id :: string
  detail_display_name :: string
  detail_description :: "string option"
  detail_status :: ServerStatus
  detail_runtime :: 'ri
  detail_env :: "string \<rightharpoonup> string"
  detail_tags :: "string list"
  detail_started_at :: "instant option"
  detail_last_activity :: "instant option"
  detail_request_count :: nat
  detail_uptime_seconds :: "nat option"

text \<open>The closure of \<open>.filter\<close> in \<open>list_servers\<close>.\<close>

definition tag_matches :: "ListParams \<Rightarrow> ServerDefinition \<Rightarrow> bool" where
  "tag_matches ps s = (case tag ps of None \<Rightarrow> True | Some t \<Rightarrow> t \<in> set (def_tags s))"

text \<open>The closure of \<open>.map\<close> in \<open>list_servers\<close>.\<close>

definition server_info :: "ManagerStats \<Rightarrow> ServerDefinition \<Rightarrow> ServerInfo" where
  "server_info stats server =
     (let server_stats = stats_servers stats (def_id server) in
      \<lparr>info_id = def_id server,
       info_display_name = def_display_name server,
       info_description = def_description server,
       info_status = (case server_stats of None \<Rightarrow> Stopped | Some s \<Rightarrow> stats_status s),
       info_tags = def_tags server,
       info_runtime_type = type_name (def_runtime server),
       info_started_at = (case server_stats of None \<Rightarrow> None | Some s \<Rightarrow> stats_started_at s),
       info_last_activity = map_option stats_last_activity server_stats,
       info_request_count =
         (case server_stats of None \<Rightarrow> 0 | Some s \<Rightarrow> stats_request_count s)\<rparr>)"

text \<open>
  \<open>list_servers\<close>. Its first argument is the sequence \<open>registry.all()\<close> yields, in
  whatever order the iterator gives; the second is the answer of \<open>get_stats\<close>.
\<close>

definition list_servers :: "ServerDefinition list \<Rightarrow> ManagerStats \<Rightarrow> ListParams \<Rightarrow> ServerInfo list" where
  "list_servers all_defs stats ps = map (server_info stats) (filter (tag_matches ps) all_defs)"

text \<open>
  \<open>get_server\<close>. \<open>RuntimeInfo::from\<close> is not shown in the documentation and is taken as
  the parameter \<open>runtime_info\<close>; \<open>d.as_secs()\<close> is the identity on whole ticks.
\<close>

definition get_server ::
  "(RuntimeConfig \<Rightarrow> 'ri) \<Rightarrow> ServerRegistry \<Rightarrow> ManagerStats \<Rightarrow> string \<Rightarrow> AppError + 'ri ServerDetail" where
  "get_server runtime_info reg stats sid =
     (case registry_get reg sid of
        None \<Rightarrow> Inl (NotFound (not_found_message sid))
      | Some server \<Rightarrow>
          (let server_stats = stats_servers stats sid in
           Inr \<lparr>detail_id = def_id server,
                detail_display_name = def_display_name server,
                detail_description = def_description server,
                detail_status = (case server_stats of None \<Rightarrow> Stopped | Some s \<Rightarrow> stats_status s),
                detail_runtime = runtime_info (def_runtime server),
                detail_env = def_env server,
                detail_tags = def_tags server,
                detail_started_at =
                  (case server_stats of None \<Rightarrow> None | Some s \<Rightarrow> stats_started_at s),
                detail_last_activity = map_option stats_last_activity server_stats,
                detail_request_count =
                  (case server_stats of None \<Rightarrow> 0 | Some s \<Rightarrow> stats_request_count s),
                detail_uptime_seconds =
                  (case server_stats of None \<Rightarrow> None | Some s \<Rightarrow> stats_uptime s)\<rparr>))"


text \<open>
  \<open>routes::start_server\<close>. \<open>ServerManager::start_server\<close> is not listed and is the
  parameter \<open>start_server\<close>; the answer on success is the message of the JSON body.
\<close>

definition route_start_server ::
  "manager_call \<Rightarrow> ServerManager \<Rightarrow> string \<Rightarrow> (AppError + string) \<times> ServerManager" where
  "route_start_server start_server mgr sid =
     (if \<not> registry_contains (mgr_registry mgr) sid
      then (Inl (NotFound (not_found_message sid)), mgr)
      else
        (case get_status mgr sid of
           Inl e \<Rightarrow> (Inl (app_error_from e), mgr)
         | Inr status \<Rightarrow>
             (if status = Running then (Inr ''Server already running'', mgr)
              else
                (case start_server mgr sid of
                   (Inl e, m) \<Rightarrow> (Inl (app_error_from e), m)
                 | (Inr _, m) \<Rightarrow> (Inr ''Server started successfully'', m)))))"

section \<open>Concrete inputs\<close>

definition echo_def :: ServerDefinition where
  "echo_def =
     \<lparr>def_id = ''echo'', def_display_name = ''Echo Server'', def_description = None,
      def_runtime = LocalProcess ''echo-tool'' [] None, def_env = Map.empty,
      def_tags = [''test'']\<rparr>"

definition echo_registry :: ServerRegistry where
  "echo_registry = \<lparr>servers = [''echo'' \<mapsto> echo_def]\<rparr>"

definition default_config :: ManagerConfig where
  "default_config =
     \<lparr>idle_timeout = 300, health_check_interval = 30, max_connections_per_server = 10,
      request_timeout = 30\<rparr>"

text \<open>The manager right after start-up: one registered server, nothing referenced yet.\<close>

definition fresh_manager :: ServerManager where
  "fresh_manager =
     \<lparr>mgr_registry = echo_registry, mgr_connections = Map.empty, mgr_status = Map.empty,
      mgr_config = default_config\<rparr>"

text \<open>A local process connection whose child is alive and can be killed.\<close>

definition echo_child :: Child where
  "echo_child = \<lparr>child_signals = [], child_kill_error = None\<rparr>"

definition echo_connection :: BackendConnection where
  "echo_connection = LocalProcessConnection echo_child"

text \<open>A child the operating system refuses to kill (it has already been reaped).\<close>

definition reaped_child :: Child where
  "reaped_child = \<lparr>child_signals = [], child_kill_error = Some ''invalid argument''\<rparr>"

text \<open>A pool at its cap of one, its only connection checked out.\<close>

definition full_pool :: ConnectionPool where
  "full_pool =
     \<lparr>pool_connections = [echo_connection], pool_available = [], pool_max_size = 1,
      pool_runtime = LocalProcess ''echo-tool'' [] None\<rparr>"

text \<open>The state of a server that started at tick 100 and last served a request at 200.\<close>

definition running_state :: ServerState where
  "running_state =
     \<lparr>state_status = Running, state_started_at = Some 100, state_last_activity = 200,
      state_request_count = 7, state_error_count = 0\<rparr>"

text \<open>A manager whose only server runs with one connection to a reaped child.\<close>

definition reaped_pool :: ConnectionPool where
  "reaped_pool =
     \<lparr>pool_connections = [LocalProcessConnection reaped_child], pool_available = [0],
      pool_max_size = 10, pool_runtime = LocalProcess ''echo-tool'' [] None\<rparr>"

definition reaped_manager :: ServerManager where
  "reaped_manager =
     \<lparr>mgr_registry = echo_registry, mgr_connections = [''echo'' \<mapsto> reaped_pool],
      mgr_status = [''echo'' \<mapsto> running_state], mgr_config = default_config\<rparr>"

text \<open>A remote server definition with the given id and URL.\<close>

definition remote_def :: "string \<Rightarrow> string \<Rightarrow> ServerDefinition" where
  "remote_def sid url =
     \<lparr>def_id = sid, def_display_name = sid, def_description = None,
      def_runtime = RemoteSse url Map.empty, def_env = Map.empty, def_tags = []\<rparr>"

text \<open>The pool of a started remote server: one connection, back in the queue.\<close>

definition remote_pool :: "string \<Rightarrow> ConnectionPool" where
  "remote_pool url =
     \<lparr>pool_connections = [RemoteSseConnection url Map.empty], pool_available = [0],
      pool_max_size = 10, pool_runtime = RemoteSse url Map.empty\<rparr>"

text \<open>The registries of a reload from \<open>{a, b, c}\<close> to \<open>{b, c, d}\<close>; the definition
  of \<open>b\<close> changes its URL, that of \<open>c\<close> does not change.\<close>

definition abc_registry :: ServerRegistry where
  "abc_registry =
     \<lparr>servers = [''a'' \<mapsto> remote_def ''a'' ''http://a/v1'', ''b'' \<mapsto> remote_def ''b'' ''http://b/v1'',
                 ''c'' \<mapsto> remote_def ''c'' ''http://c/v1'']\<rparr>"

definition bcd_registry :: ServerRegistry where
  "bcd_registry =
     \<lparr>servers = [''b'' \<mapsto> remote_def ''b'' ''http://b/v2'', ''c'' \<mapsto> remote_def ''c'' ''http://c/v1'',
                 ''d'' \<mapsto> remote_def ''d'' ''http://d/v1'']\<rparr>"

text \<open>Before the reload \<open>a\<close> and \<open>b\<close> are running and \<open>c\<close> has never been referenced.\<close>

definition abc_manager :: ServerManager where
  "abc_manager =
     \<lparr>mgr_registry = abc_registry,
      mgr_connections = [''a'' \<mapsto> remote_pool ''http://a/v1'', ''b'' \<mapsto> remote_pool ''http://b/v1''],
      mgr_status = [''a'' \<mapsto> running_state, ''b'' \<mapsto> running_state],
      mgr_config = default_config\<rparr>"

text \<open>A second catalog entry, and raw catalog entries as a parser would produce them: a
  well-formed one, and one with an id and no runtime block.\<close>

definition github_def :: ServerDefinition where
  "github_def =
     \<lparr>def_id = ''github'', def_display_name = ''GitHub API'', def_description = None,
      def_runtime = RemoteSse ''https://mcp.github.example.com/v1'' Map.empty,
      def_env = Map.empty, def_tags = [''vcs'']\<rparr>"

definition echo_runtime :: RawRuntime where
  "echo_runtime =
     \<lparr>rt_type = ''local-process'', rt_command = ''echo-tool'', rt_args = [],
      rt_working_dir = None, rt_url = [], rt_headers = Map.empty, rt_image = [],
      rt_volumes = [], rt_namespace = [], rt_service = []\<rparr>"

definition echo_entry :: RawServer where
  "echo_entry =
     \<lparr>raw_id = Some ''echo'', raw_display_name = Some ''Echo Server'', raw_description = None,
      raw_runtime = Some echo_runtime, raw_env = Map.empty, raw_tags = [''test'']\<rparr>"

definition x_entry :: RawServer where
  "x_entry =
     \<lparr>raw_id = Some ''x'', raw_display_name = None, raw_description = None,
      raw_runtime = None, raw_env = Map.empty, raw_tags = []\<rparr>"

text \<open>
  A stand-in parser for concrete runs: one text parses to a catalog in which the id \<open>x\<close>
  occurs twice (and has no runtime block), one to a valid catalog, every other text is
  a syntax error.
\<close>

definition sample_parse :: "string \<Rightarrow> string + RawServer list" where
  "sample_parse text =
     (if text = ''duplicate'' then Inr [x_entry, echo_entry, x_entry]
      else if text = ''good'' then Inr [echo_entry]
      else Inl ''parse error at line 5'')"

section \<open>Message shapes\<close>

text \<open>
  C9 (as stated, refuted): the claim says every message satisfies exactly one of the three
  shape predicates. The bare envelope, which the struct admits and the deserializer
  accepts, satisfies none of them, and a message with an id, a method and a result
  satisfies two.
\<close>

theorem C9_shapes_counterexample:
  "\<not> is_request bare_envelope \<and> \<not> is_response bare_envelope \<and> \<not> is_notification bare_envelope
   \<and> is_request request_with_result \<and> is_response request_with_result"
  by (simp add: is_request_def is_response_def is_notification_def bare_envelope_def
      request_with_result_def)

text \<open>
  C9 (amended): \<open>is_request\<close> and \<open>is_notification\<close> never hold together, and the number of
  shape predicates a message satisfies is one for its method, if present, plus one for
  its result or error, if present. So exactly one predicate holds precisely when the
  message has a method or a result/error but not both.
\<close>

theorem C9_shape_count:
  "\<not> (is_request m \<and> is_notification m) \<and>
   shape_count m =
     (if msg_method m \<noteq> None then 1 else 0) + (if msg_result m \<noteq> None \<or> msg_error m \<noteq> None then 1 else 0)"
  by (auto simp add: shape_count_def is_request_def is_response_def is_notification_def)

theorem C9_shape_count_witness:
  "shape_count bare_envelope = 0 \<and> shape_count request_with_result = 2"
  using C9_shape_count [of bare_envelope] C9_shape_count [of request_with_result]
  by (simp add: bare_envelope_def request_with_result_def)

section \<open>Listing servers that were never referenced\<close>

lemma get_stats_no_state:
  "mgr_status mgr sid = None \<Longrightarrow> stats_servers (get_stats mgr now) sid = None"
  by (simp add: get_stats_def)

text \<open>
  C10: a server of the registry whose state has not been created yet is listed by
  \<open>list_servers\<close> (whenever it passes the optional tag filter, so always in the unfiltered
  listing) and answered by \<open>get_server\<close>, with status \<open>Stopped\<close>, request count 0 and neither
  \<open>started_at\<close> nor \<open>last_activity\<close>; neither handler fails or leaves it out.
\<close>

theorem C10_unreferenced_server_is_stopped:
  assumes "server \<in> set all_defs"
    and "tag_matches ps server"
    and "registry_get reg (def_id server) = Some server"
    and "mgr_status mgr (def_id server) = None"
  shows "(\<exists>info. info \<in> set (list_servers all_defs (get_stats mgr now) ps) \<and>
            info_id info = def_id server \<and> info_status info = Stopped \<and>
            info_request_count info = 0 \<and> info_started_at info = None \<and>
            info_last_activity info = None) \<and>
         (\<exists>d. get_server runtime_info reg (get_stats mgr now) (def_id server) = Inr d \<and>
            detail_id d = def_id server \<and> detail_status d = Stopped \<and>
            detail_request_count d = 0 \<and> detail_started_at d = None \<and>
            detail_last_activity d = None)"
proof
  let ?stats = "get_stats mgr now"
  have none: "stats_servers ?stats (def_id server) = None"
    using assms(4) by (rule get_stats_no_state)
  have "server_info ?stats server \<in> set (list_servers all_defs ?stats ps)"
    using assms(1,2) by (simp add: list_servers_def)
  moreover have "info_id (server_info ?stats server) = def_id server"
    by (simp add: server_info_def Let_def)
  moreover have "info_status (server_info ?stats server) = Stopped"
    "info_request_count (server_info ?stats server) = 0"
    "info_started_at (server_info ?stats server) = None"
    "info_last_activity (server_info ?stats server) = None"
    using none by (simp_all add: server_info_def Let_def)
  ultimately show "\<exists>info. info \<in> set (list_servers all_defs ?stats ps) \<and>
            info_id info = def_id server \<and> info_status info = Stopped \<and>
            info_request_count info = 0 \<and> info_started_at info = None \<and>
            info_last_activity info = None"
    by blast
next
  let ?stats = "get_stats mgr now"
  have none: "stats_servers ?stats (def_id server) = None"
    using assms(4) by (rule get_stats_no_state)
  show "\<exists>d. get_server runtime_info reg ?stats (def_id server) = Inr d \<and>
            detail_id d = def_id server \<and> detail_status d = Stopped \<and>
            detail_request_count d = 0 \<and> detail_started_at d = None \<and>
            detail_last_activity d = None"
    using assms(3) none by (simp add: get_server_def Let_def)
qed

theorem C10_unreferenced_server_is_stopped_witness:
  "(\<exists>info. info \<in> set (list_servers [echo_def] (get_stats fresh_manager 1000)
                \<lparr>tag = None\<rparr>) \<and>
      info_id info = ''echo'' \<and> info_status info = Stopped \<and> info_request_count info = 0 \<and>
      info_started_at info = None \<and> info_last_activity info = None) \<and>
   (\<exists>d. get_server type_name echo_registry (get_stats fresh_manager 1000) ''echo''
            = Inr d \<and>
      detail_id d = ''echo'' \<and> detail_status d = Stopped \<and> detail_request_count d = 0 \<and>
      detail_started_at d = None \<and> detail_last_activity d = None)"
proof -
  have a: "echo_def \<in> set [echo_def]" by simp
  have b: "tag_matches \<lparr>tag = None\<rparr> echo_def" by (simp add: tag_matches_def)
  have c: "registry_get echo_registry (def_id echo_def) = Some echo_def"
    by (simp add: registry_get_def echo_registry_def echo_def_def)
  have d: "mgr_status fresh_manager (def_id echo_def) = None"
    by (simp add: fresh_manager_def)
  have e: "def_id echo_def = ''echo''" by (simp add: echo_def_def)
  show ?thesis
    using C10_unreferenced_server_is_stopped [OF a b c d, of 1000 type_name]
    unfolding e .
qed

section \<open>Closing a local process connection\<close>

text \<open>
  C8 (the code departs from the claim): \<open>close\<close> of a local process connection is one call
  of \<open>child.kill()\<close>. Whenever it succeeds, the one signal it has sent is \<open>SIGKILL\<close>; no
  \<open>SIGTERM\<close> precedes it and no grace period is waited for.
\<close>

theorem C8_close_is_forced_kill:
  "close (LocalProcessConnection ch) = Inr c' \<Longrightarrow>
   signals_of c' = child_signals ch @ [SIGKILL]"
  by (auto simp add: child_kill_def split: option.splits)

theorem C8_close_is_forced_kill_witness:
  "close echo_connection = Inr (LocalProcessConnection (echo_child\<lparr>child_signals := [SIGKILL]\<rparr>))
   \<and> signals_of (LocalProcessConnection (echo_child\<lparr>child_signals := [SIGKILL]\<rparr>)) = [SIGKILL]"
proof -
  have c: "close (LocalProcessConnection echo_child) =
      Inr (LocalProcessConnection (echo_child\<lparr>child_signals := [SIGKILL]\<rparr>))"
    by (simp add: child_kill_def echo_child_def)
  show ?thesis
    using c C8_close_is_forced_kill [OF c]
    by (simp add: echo_connection_def echo_child_def)
qed

section \<open>Pool bound\<close>

lemma pool_get_max_size: "pool_max_size (snd (pool_get p cr)) = pool_max_size p"
  by (simp add: pool_get_def split: list.splits sum.splits)

lemma pool_get_bound:
  "length (pool_connections p) \<le> pool_max_size p \<Longrightarrow>
   length (pool_connections (snd (pool_get p cr))) \<le> pool_max_size p"
  by (simp add: pool_get_def split: list.splits sum.splits)

lemma pool_step_max_size: "pool_max_size (pool_step p opn) = pool_max_size p"
  by (cases opn) (simp_all add: pool_get_max_size pool_release_def)

lemma pool_step_bound:
  "length (pool_connections p) \<le> pool_max_size p \<Longrightarrow>
   length (pool_connections (pool_step p opn)) \<le> pool_max_size p"
  by (cases opn) (simp_all add: pool_get_bound pool_release_def)

lemma pool_run_max_size: "pool_max_size (pool_run p ops) = pool_max_size p"
  unfolding pool_run_def by (induction ops arbitrary: p) (simp_all add: pool_step_max_size)

lemma pool_run_bound:
  "length (pool_connections p) \<le> pool_max_size p \<Longrightarrow>
   length (pool_connections (pool_run p ops)) \<le> pool_max_size p"
  unfolding pool_run_def
proof (induction ops arbitrary: p)
  case Nil
  then show ?case by simp
next
  case (Cons opn ops)
  have "length (pool_connections (pool_step p opn)) \<le> pool_max_size (pool_step p opn)"
    using Cons.prems by (simp add: pool_step_bound pool_step_max_size)
  from Cons.IH [OF this] show ?case by (simp add: pool_step_max_size)
qed

text \<open>
  C4 (the code departs from the claim at the cap): over every sequence of \<open>get\<close> and
  \<open>release\<close> the pool never holds more than \<open>max_size\<close> connections, and a \<open>get\<close> at the
  cap with nothing available creates no connection. But that \<open>get\<close> neither waits nor
  answers with a pool-exhausted error: it runs into \<open>todo!\<close> and panics.
\<close>

theorem C4_pool_bound_and_cap:
  assumes "length (pool_connections p) \<le> pool_max_size p"
  shows "length (pool_connections (pool_run p ops)) \<le> pool_max_size p \<and>
         (pool_available p = [] \<and> length (pool_connections p) = pool_max_size p \<longrightarrow>
            pool_get p connect_result =
              (Inl (Panic ''not yet implemented: Wait for available connection''), p))"
  using assms by (simp add: pool_run_bound pool_get_def)

theorem C4_pool_bound_and_cap_witness:
  "length (pool_connections (pool_run full_pool [Get (Inr echo_connection), Release 0,
      Get (Inr echo_connection), Get (Inr echo_connection)])) \<le> 1 \<and>
   pool_get full_pool (Inr echo_connection) =
     (Inl (Panic ''not yet implemented: Wait for available connection''), full_pool)"
proof -
  have a: "length (pool_connections full_pool) \<le> pool_max_size full_pool"
    by (simp add: full_pool_def)
  have b: "pool_available full_pool = [] \<and>
      length (pool_connections full_pool) = pool_max_size full_pool"
    by (simp add: full_pool_def)
  have c: "pool_max_size full_pool = 1" by (simp add: full_pool_def)
  show ?thesis
    using C4_pool_bound_and_cap [OF a, of _ "Inr echo_connection"] b c by simp
qed

section \<open>Unknown server ids\<close>

text \<open>
  C6: for an id that is not in the manager's current registry, \<open>get_connection\<close> (acquire)
  answers \<open>ServerNotFound\<close>, which the HTTP layer turns into \<open>NotFound\<close>, and the start
  handler answers \<open>NotFound\<close>; both leave the manager exactly as it was, whatever
  \<open>start_server\<close> and \<open>wait_for_ready\<close> would do.
\<close>

theorem C6_unknown_id_not_found:
  assumes "\<not> registry_contains (mgr_registry mgr) sid"
  shows "get_connection start_server wait_for_ready connect_result now mgr sid =
           (Inl (Err (ServerNotFound sid)), mgr) \<and>
         app_error_from (ServerNotFound sid) = NotFound (not_found_message sid) \<and>
         route_start_server start_server mgr sid = (Inl (NotFound (not_found_message sid)), mgr)"
  using assms by (simp add: get_connection_def get_status_def route_start_server_def)

theorem C6_unknown_id_not_found_witness:
  "get_connection stop_server stop_server (Inr echo_connection) 5 fresh_manager ''unknown'' =
     (Inl (Err (ServerNotFound ''unknown'')), fresh_manager) \<and>
   route_start_server stop_server fresh_manager ''unknown'' =
     (Inl (NotFound (not_found_message ''unknown'')), fresh_manager)"
proof -
  have a: "\<not> registry_contains (mgr_registry fresh_manager) ''unknown''"
    by (simp add: registry_contains_def fresh_manager_def echo_registry_def)
  show ?thesis
    using C6_unknown_id_not_found [OF a, of stop_server stop_server "Inr echo_connection" 5]
    by simp
qed

section \<open>Stopping a server\<close>

lemma mark_shutting_down_fields [simp]:
  "mgr_registry (mark_shutting_down mgr sid) = mgr_registry mgr"
  "mgr_connections (mark_shutting_down mgr sid) = mgr_connections mgr"
  "mgr_config (mark_shutting_down mgr sid) = mgr_config mgr"
  by (simp_all add: mark_shutting_down_def split: option.splits)

lemma mark_shutting_down_status:
  "mgr_status (mark_shutting_down mgr sid) =
     (mgr_status mgr)(sid := map_option (\<lambda>st. st\<lparr>state_status := ShuttingDown\<rparr>) (mgr_status mgr sid))"
  by (auto simp add: mark_shutting_down_def split: option.splits)

lemma mark_stopped_fields [simp]:
  "mgr_registry (mark_stopped mgr sid) = mgr_registry mgr"
  "mgr_connections (mark_stopped mgr sid) = mgr_connections mgr"
  "mgr_config (mark_stopped mgr sid) = mgr_config mgr"
  by (simp_all add: mark_stopped_def split: option.splits)

lemma mark_stopped_status:
  "mgr_status (mark_stopped mgr sid) =
     (mgr_status mgr)(sid := map_option stopped_state (mgr_status mgr sid))"
  by (auto simp add: mark_stopped_def stopped_state_def split: option.splits)

lemma close_connections_fields [simp]:
  "mgr_registry (snd (close_connections mgr sid)) = mgr_registry mgr"
  "mgr_status (snd (close_connections mgr sid)) = mgr_status mgr"
  "mgr_config (snd (close_connections mgr sid)) = mgr_config mgr"
  "mgr_connections (snd (close_connections mgr sid)) = (mgr_connections mgr)(sid := None)"
  by (auto simp add: close_connections_def split: option.splits sum.splits)

lemma close_connections_result:
  "fst (close_connections mgr sid) =
     (case mgr_connections mgr sid of
        None \<Rightarrow> Inr ()
      | Some pool \<Rightarrow> (case close_all pool of Inl e \<Rightarrow> Inl e | Inr _ \<Rightarrow> Inr ()))"
  by (simp add: close_connections_def split: option.splits sum.splits)

lemma stop_server_unfold:
  "stop_server mgr sid =
     (let m = snd (close_connections (mark_shutting_down mgr sid) sid) in
      case fst (close_connections (mark_shutting_down mgr sid) sid) of
        Inl e \<Rightarrow> (Inl e, m)
      | Inr _ \<Rightarrow> (Inr (), mark_stopped m sid))"
  by (simp add: stop_server_def Let_def split: prod.splits sum.splits)

lemma stop_server_fields [simp]:
  "mgr_registry (snd (stop_server mgr sid)) = mgr_registry mgr"
  "mgr_config (snd (stop_server mgr sid)) = mgr_config mgr"
  "mgr_connections (snd (stop_server mgr sid)) = (mgr_connections mgr)(sid := None)"
  by (simp_all add: stop_server_unfold Let_def split: sum.splits)

lemma stop_server_status_other:
  "x \<noteq> sid \<Longrightarrow> mgr_status (snd (stop_server mgr sid)) x = mgr_status mgr x"
  by (simp add: stop_server_unfold Let_def mark_stopped_status mark_shutting_down_status
      split: sum.splits)

lemma stop_server_status_dom:
  "mgr_status (snd (stop_server mgr sid)) x = None \<longleftrightarrow> mgr_status mgr x = None"
  by (simp add: stop_server_unfold Let_def mark_stopped_status mark_shutting_down_status
      split: sum.splits)

lemma stop_server_clean:
  "closes_cleanly mgr sid \<Longrightarrow>
   fst (stop_server mgr sid) = Inr () \<and>
   mgr_status (snd (stop_server mgr sid)) sid = map_option stopped_state (mgr_status mgr sid)"
  by (cases "mgr_status mgr sid")
    (auto simp add: stop_server_unfold Let_def mark_stopped_status mark_shutting_down_status
      close_connections_result closes_cleanly_def stopped_state_def
      split: sum.splits option.splits)

lemma stop_server_close_error:
  "mgr_connections mgr sid = Some pool \<Longrightarrow> close_all pool = Inl e \<Longrightarrow>
   fst (stop_server mgr sid) = Inl e \<and>
   mgr_status (snd (stop_server mgr sid)) sid =
     map_option (\<lambda>st. st\<lparr>state_status := ShuttingDown\<rparr>) (mgr_status mgr sid)"
  by (auto simp add: stop_server_unfold Let_def mark_shutting_down_status
      close_connections_result split: sum.splits option.splits)

lemma stop_server_keeps_stopped_without_pool:
  "stopped_without_pool mgr \<Longrightarrow> stopped_without_pool (snd (stop_server mgr sid))"
  unfolding stopped_without_pool_def
  by (auto simp add: stop_server_unfold Let_def mark_stopped_status mark_shutting_down_status
      split: sum.splits if_splits)

lemma touch_keeps_stopped_without_pool:
  "stopped_without_pool mgr \<Longrightarrow> stopped_without_pool (touch mgr sid now)"
  unfolding stopped_without_pool_def
  by (auto simp add: touch_def split: option.splits if_splits)

section \<open>Idle sweep\<close>

lemma idle_stop_spawned_iff:
  "sid \<in> check_idle_servers mgr now \<longleftrightarrow>
     (\<exists>st. mgr_status mgr sid = Some st \<and> state_status st = Running \<and>
        idle_timeout (mgr_config mgr) < now - state_last_activity st)"
  by (simp add: check_idle_servers_def idle_stop_spawned_def split: option.splits)

text \<open>
  When the pool closes without error the sweep does what the claim says: the stop is
  spawned, the pool is gone while the state still says \<open>ShuttingDown\<close>, and only then
  does the state become \<open>Stopped\<close>.
\<close>

lemma idle_stop_reaches_stopped:
  assumes "mgr_status mgr sid = Some st" and "state_status st = Running"
    and "idle_timeout (mgr_config mgr) < now - state_last_activity st"
    and "closes_cleanly mgr sid"
  shows "sid \<in> check_idle_servers mgr now"
    and "status_of (snd (close_connections (mark_shutting_down mgr sid) sid)) sid = Some ShuttingDown"
    and "pool_size (snd (close_connections (mark_shutting_down mgr sid) sid)) sid = 0"
    and "idle_stop_task mgr sid = mark_stopped (snd (close_connections (mark_shutting_down mgr sid) sid)) sid"
    and "status_of (idle_stop_task mgr sid) sid = Some Stopped"
    and "pool_size (idle_stop_task mgr sid) sid = 0"
proof -
  show "sid \<in> check_idle_servers mgr now"
    using assms(1-3) by (simp add: idle_stop_spawned_iff)
  show "status_of (snd (close_connections (mark_shutting_down mgr sid) sid)) sid = Some ShuttingDown"
    using assms(1) by (simp add: status_of_def mark_shutting_down_status)
  show "pool_size (snd (close_connections (mark_shutting_down mgr sid) sid)) sid = 0"
    by (simp add: pool_size_def)
  have ok: "fst (close_connections (mark_shutting_down mgr sid) sid) = Inr ()"
    using assms(4) by (simp add: close_connections_result closes_cleanly_def split: option.splits sum.splits)
  show "idle_stop_task mgr sid = mark_stopped (snd (close_connections (mark_shutting_down mgr sid) sid)) sid"
    using ok by (simp add: idle_stop_task_def stop_server_unfold Let_def)
  show "status_of (idle_stop_task mgr sid) sid = Some Stopped"
    using assms(1,4) by (simp add: idle_stop_task_def status_of_def stop_server_clean stopped_state_def)
  show "pool_size (idle_stop_task mgr sid) sid = 0"
    by (simp add: idle_stop_task_def pool_size_def)
qed

text \<open>
  C5 (the code departs from the claim): the sweep spawns the stop of every running
  server that has been idle for longer than the timeout, but when closing the pool
  fails, \<open>stop_server\<close> returns at the \<open>?\<close> after \<open>close_all\<close>: the pool is gone and the
  state stays \<open>ShuttingDown\<close>, it never becomes \<open>Stopped\<close>.
\<close>

theorem C5_idle_stop_stuck_on_close_error:
  assumes "mgr_status mgr sid = Some st" and "state_status st = Running"
    and "idle_timeout (mgr_config mgr) < now - state_last_activity st"
    and "mgr_connections mgr sid = Some pool" and "close_all pool = Inl e"
  shows "sid \<in> check_idle_servers mgr now \<and>
         fst (stop_server mgr sid) = Inl e \<and>
         status_of (idle_stop_task mgr sid) sid = Some ShuttingDown \<and>
         pool_size (idle_stop_task mgr sid) sid = 0"
  using assms
  by (simp add: idle_stop_spawned_iff idle_stop_task_def status_of_def pool_size_def
      stop_server_close_error)

theorem C5_idle_stop_stuck_on_close_error_witness:
  "''echo'' \<in> check_idle_servers reaped_manager 1000 \<and>
   fst (stop_server reaped_manager ''echo'') = Inl (RuntimeError ''invalid argument'') \<and>
   status_of (idle_stop_task reaped_manager ''echo'') ''echo'' = Some ShuttingDown \<and>
   pool_size (idle_stop_task reaped_manager ''echo'') ''echo'' = 0"
proof -
  have a: "mgr_status reaped_manager ''echo'' = Some running_state"
    by (simp add: reaped_manager_def)
  have b: "state_status running_state = Running" by (simp add: running_state_def)
  have c: "idle_timeout (mgr_config reaped_manager) < 1000 - state_last_activity running_state"
    by (simp add: reaped_manager_def default_config_def running_state_def)
  have d: "mgr_connections reaped_manager ''echo'' = Some reaped_pool"
    by (simp add: reaped_manager_def)
  have e: "close_all reaped_pool = Inl (RuntimeError ''invalid argument'')"
    by (simp add: close_all_def reaped_pool_def child_kill_def reaped_child_def)
  show ?thesis by (rule C5_idle_stop_stuck_on_close_error [OF a b c d e])
qed

section \<open>Registry update\<close>

lemma stop_each_fields [simp]:
  "mgr_registry (stop_each mgr xs) = mgr_registry mgr"
  "mgr_config (stop_each mgr xs) = mgr_config mgr"
  by (induction xs arbitrary: mgr) simp_all

lemma stop_each_connections:
  "mgr_connections (stop_each mgr xs) x = (if x \<in> set xs then None else mgr_connections mgr x)"
  by (induction xs arbitrary: mgr) auto

lemma stop_each_status_other:
  "x \<notin> set xs \<Longrightarrow> mgr_status (stop_each mgr xs) x = mgr_status mgr x"
  by (induction xs arbitrary: mgr) (auto simp add: stop_server_status_other)

lemma stop_each_status_dom:
  "mgr_status (stop_each mgr xs) x = None \<longleftrightarrow> mgr_status mgr x = None"
  by (induction xs arbitrary: mgr) (auto simp add: stop_server_status_dom)

lemma closes_cleanly_cong:
  "mgr_connections m x = mgr_connections m' x \<Longrightarrow> closes_cleanly m x = closes_cleanly m' x"
  by (simp add: closes_cleanly_def)

lemma stop_each_status_clean:
  "distinct xs \<Longrightarrow> x \<in> set xs \<Longrightarrow> closes_cleanly mgr x \<Longrightarrow>
   mgr_status (stop_each mgr xs) x = map_option stopped_state (mgr_status mgr x)"
proof (induction xs arbitrary: mgr)
  case Nil
  then show ?case by simp
next
  case (Cons y ys)
  show ?case
  proof (cases "x = y")
    case True
    then have "x \<notin> set ys" using Cons.prems(1) by simp
    then have "mgr_status (stop_each (snd (stop_server mgr y)) ys) x =
        mgr_status (snd (stop_server mgr y)) x"
      by (rule stop_each_status_other)
    then show ?thesis using True Cons.prems(3) by (simp add: stop_server_clean)
  next
    case False
    then have in_ys: "x \<in> set ys" using Cons.prems(2) by simp
    have "closes_cleanly (snd (stop_server mgr y)) x = closes_cleanly mgr x"
      using False by (intro closes_cleanly_cong) simp
    then have clean: "closes_cleanly (snd (stop_server mgr y)) x" using Cons.prems(3) by simp
    have "distinct ys" using Cons.prems(1) by simp
    from Cons.IH [OF this in_ys clean] show ?thesis
      using False by (simp add: stop_server_status_other)
  qed
qed

lemma stop_each_keeps_stopped_without_pool:
  "stopped_without_pool mgr \<Longrightarrow> stopped_without_pool (stop_each mgr xs)"
  by (induction xs arbitrary: mgr) (simp_all add: stop_server_keeps_stopped_without_pool)

lemma removed_a: "removed_ids abc_registry bcd_registry [''a'']"
  by (auto simp add: removed_ids_def registry_ids_def abc_registry_def bcd_registry_def)

lemma abc_clean: "closes_cleanly abc_manager ''a''"
  by (simp add: closes_cleanly_def abc_manager_def close_all_def remote_pool_def)

text \<open>
  C3 (as stated, refuted): the claim says the state of a removed server is removed. After
  the reload from \<open>{a, b, c}\<close> to \<open>{b, c, d}\<close> the manager still holds the state of
  \<open>a\<close>, now \<open>Stopped\<close>: \<open>update_registry\<close> stops removed servers and deletes nothing
  from the state map.
\<close>

theorem C3_state_kept_counterexample:
  "removed_ids (mgr_registry abc_manager) bcd_registry [''a''] \<and>
   mgr_status (update_registry abc_manager bcd_registry [''a'']) ''a''
     = Some (stopped_state running_state)"
  using removed_a abc_clean
  by (simp add: update_registry_def abc_manager_def stop_server_clean closes_cleanly_def)

text \<open>
  C3 (amended): after \<open>update_registry\<close> the new registry is in effect. A server only in
  the old registry is no longer registered and has no pool; its state entry is kept, and
  when its pool closed without error that state is \<open>Stopped\<close> with \<open>started_at\<close> cleared.
  Every server of the new registry, whether it was in the old one or not and whether
  its definition changed or not, has exactly the state and the pool (with the runtime
  it was started from) it had before; a new server is registered and, never referenced,
  has neither.
\<close>

theorem C3_reload_reconciliation:
  assumes "removed_ids (mgr_registry mgr) new_registry removed"
  shows "mgr_registry (update_registry mgr new_registry removed) = new_registry \<and>
    (\<forall>sid. sid \<in> registry_ids (mgr_registry mgr) \<and> sid \<notin> registry_ids new_registry \<longrightarrow>
       \<not> registry_contains (mgr_registry (update_registry mgr new_registry removed)) sid \<and>
       mgr_connections (update_registry mgr new_registry removed) sid = None \<and>
       (mgr_status (update_registry mgr new_registry removed) sid = None
          \<longleftrightarrow> mgr_status mgr sid = None) \<and>
       (closes_cleanly mgr sid \<longrightarrow>
          mgr_status (update_registry mgr new_registry removed) sid
            = map_option stopped_state (mgr_status mgr sid))) \<and>
    (\<forall>sid. sid \<in> registry_ids new_registry \<longrightarrow>
       registry_get (mgr_registry (update_registry mgr new_registry removed)) sid
         = registry_get new_registry sid \<and>
       mgr_status (update_registry mgr new_registry removed) sid = mgr_status mgr sid \<and>
       mgr_connections (update_registry mgr new_registry removed) sid = mgr_connections mgr sid)"
proof -
  let ?m0 = "mgr\<lparr>mgr_registry := new_registry\<rparr>"
  have d: "distinct removed"
    and r: "set removed = registry_ids (mgr_registry mgr) - registry_ids new_registry"
    using assms by (simp_all add: removed_ids_def)
  have reg: "mgr_registry (update_registry mgr new_registry removed) = new_registry"
    by (simp add: update_registry_def)
  have gone: "\<not> registry_contains new_registry sid \<and>
       mgr_connections (update_registry mgr new_registry removed) sid = None \<and>
       (mgr_status (update_registry mgr new_registry removed) sid = None
          \<longleftrightarrow> mgr_status mgr sid = None) \<and>
       (closes_cleanly mgr sid \<longrightarrow>
          mgr_status (update_registry mgr new_registry removed) sid
            = map_option stopped_state (mgr_status mgr sid))"
    if "sid \<in> registry_ids (mgr_registry mgr)" "sid \<notin> registry_ids new_registry" for sid
  proof -
    have mem: "sid \<in> set removed" using that r by simp
    have c0: "closes_cleanly ?m0 sid = closes_cleanly mgr sid"
      by (simp add: closes_cleanly_def)
    have "mgr_status (stop_each ?m0 removed) sid = map_option stopped_state (mgr_status ?m0 sid)"
      if "closes_cleanly mgr sid"
      using stop_each_status_clean [OF d mem, of ?m0] that c0 by simp
    then show ?thesis
      using that(2) mem
      by (simp add: update_registry_def stop_each_connections stop_each_status_dom
          registry_ids_def registry_contains_def dom_def)
  qed
  have kept: "mgr_status (update_registry mgr new_registry removed) sid = mgr_status mgr sid \<and>
       mgr_connections (update_registry mgr new_registry removed) sid = mgr_connections mgr sid"
    if "sid \<in> registry_ids new_registry" for sid
  proof -
    have "sid \<notin> set removed" using that r by simp
    then show ?thesis
      by (simp add: update_registry_def stop_each_connections stop_each_status_other)
  qed
  show ?thesis using reg gone kept by simp
qed

theorem C3_reload_reconciliation_witness:
  "mgr_registry (update_registry abc_manager bcd_registry [''a'']) = bcd_registry \<and>
   \<not> registry_contains (mgr_registry (update_registry abc_manager bcd_registry [''a''])) ''a'' \<and>
   mgr_connections (update_registry abc_manager bcd_registry [''a'']) ''a'' = None \<and>
   status_of (update_registry abc_manager bcd_registry [''a'']) ''a'' = Some Stopped \<and>
   registry_contains (mgr_registry (update_registry abc_manager bcd_registry [''a''])) ''d'' \<and>
   mgr_status (update_registry abc_manager bcd_registry [''a'']) ''d'' = None \<and>
   mgr_connections (update_registry abc_manager bcd_registry [''a'']) ''d'' = None \<and>
   mgr_status (update_registry abc_manager bcd_registry [''a'']) ''b'' = Some running_state \<and>
   mgr_connections (update_registry abc_manager bcd_registry [''a'']) ''b''
     = Some (remote_pool ''http://b/v1'') \<and>
   mgr_status (update_registry abc_manager bcd_registry [''a'']) ''c'' = None"
proof -
  have rem: "removed_ids (mgr_registry abc_manager) bcd_registry [''a'']"
    using removed_a by (simp add: abc_manager_def)
  have ids: "''a'' \<in> registry_ids (mgr_registry abc_manager)" "''a'' \<notin> registry_ids bcd_registry"
    "''b'' \<in> registry_ids bcd_registry" "''c'' \<in> registry_ids bcd_registry"
    "''d'' \<in> registry_ids bcd_registry"
    by (simp_all add: registry_ids_def abc_manager_def abc_registry_def bcd_registry_def)
  have before: "mgr_status abc_manager ''a'' = Some running_state"
    "mgr_status abc_manager ''b'' = Some running_state"
    "mgr_status abc_manager ''c'' = None" "mgr_status abc_manager ''d'' = None"
    "mgr_connections abc_manager ''b'' = Some (remote_pool ''http://b/v1'')"
    "mgr_connections abc_manager ''d'' = None"
    by (simp_all add: abc_manager_def)
  have d: "registry_contains bcd_registry ''d''"
    by (simp add: registry_contains_def bcd_registry_def)
  note t = C3_reload_reconciliation [OF rem]
  note gone = t [THEN conjunct2, THEN conjunct1, rule_format, of "''a''"]
  note kept = t [THEN conjunct2, THEN conjunct2, rule_format]
  show ?thesis
    using t [THEN conjunct1] gone kept [of "''b''"] kept [of "''c''"] kept [of "''d''"]
      ids before abc_clean d
    by (simp add: status_of_def stopped_state_def)
qed

section \<open>Catalog validation\<close>

lemma find_missing_id_None: "find_missing_id n es = None \<longleftrightarrow> rule_id_present es"
  by (induction es arbitrary: n) (auto simp add: rule_id_present_def has_id_def split: option.splits)

lemma find_duplicate_id_None:
  "find_duplicate_id seen es = None \<longleftrightarrow>
     distinct (map entry_id es) \<and> set (map entry_id es) \<inter> set seen = {}"
  by (induction es arbitrary: seen) auto

lemma find_missing_runtime_None: "find_missing_runtime es = None \<longleftrightarrow> rule_runtime_present es"
  by (induction es) (auto simp add: rule_runtime_present_def split: option.splits)

lemma find_unknown_type_None: "find_unknown_type es = None \<longleftrightarrow> rule_type_recognized es"
  by (induction es) (auto simp add: rule_type_recognized_def split: option.splits)

lemma validate_rule:
  "(case validate es of
      Some issue \<Rightarrow> first_failed_rule (Inr es) = Some (rule_of_issue issue)
    | None \<Rightarrow> first_failed_rule (Inr es) = None)"
  using find_missing_id_None [of 0 es] find_duplicate_id_None [of "[]" es]
    find_missing_runtime_None [of es] find_unknown_type_None [of es]
  by (auto simp add: validate_def first_failed_rule_def rule_id_unique_def split: option.splits)

lemma recognized_has_config:
  "rt_type r \<in> set recognized_types \<Longrightarrow> runtime_config_of r \<noteq> None"
  by (auto simp add: recognized_types_def runtime_config_of_def)

lemma definition_of_valid:
  assumes "rule_runtime_present es" and "rule_type_recognized es" and "e \<in> set es"
  shows "\<exists>d. definition_of e = Some d \<and> def_id d = entry_id e"
proof -
  obtain r where r: "raw_runtime e = Some r"
    using assms(1,3) by (auto simp add: rule_runtime_present_def)
  then have "rt_type r \<in> set recognized_types"
    using assms(2,3) by (auto simp add: rule_type_recognized_def)
  then obtain rc where "runtime_config_of r = Some rc"
    using recognized_has_config by blast
  then show ?thesis using r by (simp add: definition_of_def)
qed

lemma map_filter_ids:
  "\<forall>e \<in> set es. \<exists>d. definition_of e = Some d \<and> def_id d = entry_id e \<Longrightarrow>
   map def_id (List.map_filter definition_of es) = map entry_id es"
  by (induction es) auto

lemma map_filter_member:
  "e \<in> set es \<Longrightarrow> definition_of e = Some d \<Longrightarrow> d \<in> set (List.map_filter definition_of es)"
  by (induction es) (auto split: option.splits)

section \<open>Registry construction\<close>

lemma insert_all_other:
  "k \<notin> def_id ` set ds \<Longrightarrow> insert_all ds m k = m k"
  by (induction ds arbitrary: m) auto

lemma insert_all_member:
  "distinct (map def_id ds) \<Longrightarrow> d \<in> set ds \<Longrightarrow> insert_all ds m (def_id d) = Some d"
proof (induction ds arbitrary: m)
  case Nil
  then show ?case by simp
next
  case (Cons x xs)
  show ?case
  proof (cases "d = x")
    case True
    then have "def_id d \<notin> def_id ` set xs" using Cons.prems(1) by auto
    then show ?thesis using True by (simp add: insert_all_other)
  next
    case False
    then show ?thesis using Cons by auto
  qed
qed

lemma insert_all_dom: "dom (insert_all ds m) = dom m \<union> def_id ` set ds"
  by (induction ds arbitrary: m) auto

lemma insert_all_ran:
  assumes "distinct (map def_id ds)"
  shows "ran (insert_all ds Map.empty) = set ds"
proof
  show "ran (insert_all ds Map.empty) \<subseteq> set ds"
  proof
    fix d assume "d \<in> ran (insert_all ds Map.empty)"
    then obtain k where k: "insert_all ds Map.empty k = Some d" by (auto simp add: ran_def)
    then have "k \<in> dom (insert_all ds Map.empty)" by auto
    then obtain d' where d': "d' \<in> set ds" "k = def_id d'" by (auto simp add: insert_all_dom)
    then have "insert_all ds Map.empty k = Some d'" using assms by (simp add: insert_all_member)
    then show "d \<in> set ds" using k d' by simp
  qed
next
  show "set ds \<subseteq> ran (insert_all ds Map.empty)"
    using assms by (auto simp add: ran_def intro: insert_all_member)
qed

lemma load_catalog_success:
  assumes "first_failed_rule (Inr es) = None"
  shows "registry_ids (ServerRegistry_new (List.map_filter definition_of es)) = entry_id ` set es"
    and "\<forall>e \<in> set es. \<exists>d. definition_of e = Some d \<and>
           registry_get (ServerRegistry_new (List.map_filter definition_of es)) (entry_id e) = Some d"
proof -
  have rules: "rule_id_unique es" "rule_runtime_present es" "rule_type_recognized es"
    using assms by (simp_all add: first_failed_rule_def split: if_splits)
  have valid: "\<forall>e \<in> set es. \<exists>d. definition_of e = Some d \<and> def_id d = entry_id e"
    using definition_of_valid [OF rules(2,3)] by blast
  have ids: "map def_id (List.map_filter definition_of es) = map entry_id es"
    using valid by (rule map_filter_ids)
  have dist: "distinct (map def_id (List.map_filter definition_of es))"
    using rules(1) ids by (simp add: rule_id_unique_def)
  show "registry_ids (ServerRegistry_new (List.map_filter definition_of es)) = entry_id ` set es"
  proof -
    have "def_id ` set (List.map_filter definition_of es) = set (map def_id (List.map_filter definition_of es))"
      by simp
    also have "\<dots> = entry_id ` set es" by (simp only: ids set_map)
    finally show ?thesis
      by (simp add: registry_ids_def ServerRegistry_new_def insert_all_dom)
  qed
  show "\<forall>e \<in> set es. \<exists>d. definition_of e = Some d \<and>
           registry_get (ServerRegistry_new (List.map_filter definition_of es)) (entry_id e) = Some d"
  proof
    fix e assume e: "e \<in> set es"
    then obtain d where d: "definition_of e = Some d" "def_id d = entry_id e"
      using valid by blast
    have "d \<in> set (List.map_filter definition_of es)"
      using e d(1) by (rule map_filter_member)
    then have "insert_all (List.map_filter definition_of es) Map.empty (def_id d) = Some d"
      using dist by (simp add: insert_all_member)
    then show "\<exists>d. definition_of e = Some d \<and>
           registry_get (ServerRegistry_new (List.map_filter definition_of es)) (entry_id e) = Some d"
      using d by (simp add: registry_get_def ServerRegistry_new_def)
  qed
qed

text \<open>
  C2: \<open>load\<close> reports the first rule, in the order syntax, id present, id unique, runtime
  present, type recognized, that the catalog breaks, whatever later rules it breaks as
  well; a catalog that breaks a rule yields no registry at all, and the reload leaves the
  registry that was in effect exactly as it was. A catalog that breaks no rule yields a
  registry holding every one of its entries, which the reload puts in effect.
\<close>

theorem C2_load_first_failure_wins:
  "(case load_catalog parse_yaml text of
      Inl err \<Rightarrow>
        first_failed_rule (parse_yaml text) = Some (rule_of_error err) \<and>
        watcher_reload parse_yaml text current = (Inl err, current)
    | Inr reg \<Rightarrow>
        first_failed_rule (parse_yaml text) = None \<and>
        watcher_reload parse_yaml text current = (Inr (), reg) \<and>
        (\<exists>es. parse_yaml text = Inr es \<and> registry_ids reg = entry_id ` set es \<and>
           (\<forall>e \<in> set es. \<exists>d. definition_of e = Some d \<and>
              registry_get reg (entry_id e) = Some d)))"
proof (cases "parse_yaml text")
  case (Inl perr)
  then show ?thesis
    by (simp add: load_catalog_def watcher_reload_def first_failed_rule_def)
next
  case (Inr es)
  show ?thesis
  proof (cases "validate es")
    case None
    then have ok: "first_failed_rule (Inr es) = None"
      using validate_rule [of es] by simp
    show ?thesis
      using Inr None ok load_catalog_success [OF ok]
      by (simp add: load_catalog_def watcher_reload_def)
  next
    case (Some issue)
    then have "first_failed_rule (Inr es) = Some (rule_of_issue issue)"
      using validate_rule [of es] by simp
    then show ?thesis
      using Inr Some by (simp add: load_catalog_def watcher_reload_def)
  qed
qed

theorem C2_load_first_failure_wins_witness:
  "load_catalog sample_parse ''duplicate'' = Inl (ValidationError (DuplicateId ''x'')) \<and>
   first_failed_rule (sample_parse ''duplicate'') = Some IdUnique \<and>
   watcher_reload sample_parse ''duplicate'' echo_registry
     = (Inl (ValidationError (DuplicateId ''x'')), echo_registry) \<and>
   load_catalog sample_parse ''broken'' = Inl (ParseError ''parse error at line 5'') \<and>
   watcher_reload sample_parse ''broken'' echo_registry
     = (Inl (ParseError ''parse error at line 5''), echo_registry) \<and>
   load_catalog sample_parse ''good'' = Inr echo_registry \<and>
   first_failed_rule (sample_parse ''good'') = None \<and>
   watcher_reload sample_parse ''good'' \<lparr>servers = Map.empty\<rparr> = (Inr (), echo_registry)"
proof -
  have dup: "load_catalog sample_parse ''duplicate'' = Inl (ValidationError (DuplicateId ''x''))"
    by (simp add: load_catalog_def sample_parse_def validate_def has_id_def entry_id_def
        x_entry_def echo_entry_def)
  have broken: "load_catalog sample_parse ''broken'' = Inl (ParseError ''parse error at line 5'')"
    by (simp add: load_catalog_def sample_parse_def)
  have good: "load_catalog sample_parse ''good'' = Inr echo_registry"
    by (simp add: load_catalog_def sample_parse_def validate_def has_id_def entry_id_def
        echo_entry_def echo_runtime_def recognized_types_def definition_of_def
        runtime_config_of_def ServerRegistry_new_def echo_registry_def echo_def_def)
  show ?thesis
    using C2_load_first_failure_wins [of sample_parse "''duplicate''" echo_registry]
      C2_load_first_failure_wins [of sample_parse "''broken''" echo_registry]
      C2_load_first_failure_wins [of sample_parse "''good''" "\<lparr>servers = Map.empty\<rparr>"]
    by (simp add: dup broken good)
qed

section \<open>Listing order\<close>

lemma echo_github_same_registry:
  "ServerRegistry_new [echo_def, github_def] = ServerRegistry_new [github_def, echo_def]"
proof -
  have ids: "def_id echo_def = ''echo''" "def_id github_def = ''github''"
    by (simp_all add: echo_def_def github_def_def)
  show ?thesis
    by (simp add: ServerRegistry_new_def ids fun_eq_iff)
qed

lemma echo_github_differ: "[echo_def, github_def] \<noteq> [github_def, echo_def]"
proof
  assume h: "[echo_def, github_def] = [github_def, echo_def]"
  have "def_id (hd [echo_def, github_def]) = def_id (hd [github_def, echo_def])"
    by (simp only: h)
  then show False by (simp add: echo_def_def github_def_def)
qed

text \<open>
  C7 (as stated, refuted): the claim says \<open>all\<close> returns the definitions in the order of the
  catalog. The registry is a map from id to definition and keeps no order: two catalogs
  with the same entries in different order build the same registry, so no function of
  the registry returns the catalog order of both.
\<close>

theorem C7_catalog_order_lost_counterexample:
  "ServerRegistry_new [echo_def, github_def] = ServerRegistry_new [github_def, echo_def] \<and>
   [echo_def, github_def] \<noteq> [github_def, echo_def] \<and>
   \<not> (\<exists>all. \<forall>cat. distinct (map def_id cat) \<longrightarrow> all (ServerRegistry_new cat) = cat)"
proof (intro conjI)
  show "ServerRegistry_new [echo_def, github_def] = ServerRegistry_new [github_def, echo_def]"
    by (rule echo_github_same_registry)
  show "[echo_def, github_def] \<noteq> [github_def, echo_def]"
    by (rule echo_github_differ)
  show "\<not> (\<exists>all. \<forall>cat. distinct (map def_id cat) \<longrightarrow> all (ServerRegistry_new cat) = cat)"
  proof
    assume "\<exists>all. \<forall>cat. distinct (map def_id cat) \<longrightarrow> all (ServerRegistry_new cat) = cat"
    then obtain all_fn :: "ServerRegistry \<Rightarrow> ServerDefinition list"
      where a: "\<And>cat. distinct (map def_id cat) \<Longrightarrow> all_fn (ServerRegistry_new cat) = cat"
      by blast
    have d1: "distinct (map def_id [echo_def, github_def])"
      and d2: "distinct (map def_id [github_def, echo_def])"
      by (simp_all add: echo_def_def github_def_def)
    have "[echo_def, github_def] = all_fn (ServerRegistry_new [echo_def, github_def])"
      using a [OF d1] by simp
    also have "\<dots> = all_fn (ServerRegistry_new [github_def, echo_def])"
      by (simp only: echo_github_same_registry)
    also have "\<dots> = [github_def, echo_def]" using a [OF d2] by simp
    finally show False by (rule echo_github_differ [THEN notE])
  qed
qed

text \<open>
  C7 (amended): for a catalog with unique ids, \<open>all\<close> yields exactly the definitions of the
  catalog, each once, in no particular order, and each is found under its id.
\<close>

theorem C7_all_yields_catalog_entries:
  assumes "distinct (map def_id cat)"
  shows "registry_all (ServerRegistry_new cat) = set cat \<and>
         registry_ids (ServerRegistry_new cat) = def_id ` set cat \<and>
         (\<forall>d \<in> set cat. registry_get (ServerRegistry_new cat) (def_id d) = Some d)"
  using assms
  by (simp add: registry_all_def registry_ids_def registry_get_def ServerRegistry_new_def
      insert_all_ran insert_all_dom insert_all_member)

theorem C7_all_yields_catalog_entries_witness:
  "registry_all (ServerRegistry_new [github_def, echo_def]) = {echo_def, github_def} \<and>
   registry_get (ServerRegistry_new [github_def, echo_def]) ''echo'' = Some echo_def"
proof -
  have d: "distinct (map def_id [github_def, echo_def])"
    by (simp add: echo_def_def github_def_def)
  have e: "def_id echo_def = ''echo''" by (simp add: echo_def_def)
  note t = C7_all_yields_catalog_entries [OF d]
  have "registry_get (ServerRegistry_new [github_def, echo_def]) (def_id echo_def) = Some echo_def"
    using t by simp
  then show ?thesis using t e by auto
qed

end
